theory Spec2Isabelle
  imports Complex_Main "HOL-Library.Product_Lexorder" "HOL-Library.Sublist"
begin

section \<open>Label printing cost calculator: the calculation core of calculation.py\<close>

text \<open>
  Numbers. Python's \<open>int\<close> is \<^typ>\<open>int\<close>. Every finite Python \<open>float\<close> is a rational
  number, so a float input is a value of \<^typ>\<open>rat\<close>; the arithmetic of the model is exact
  (\<open>+\<close>, \<open>*\<close>, \<open>/\<close> on \<^typ>\<open>rat\<close>), that is, the rounding of each float operation to
  53 bits is left out, and decimal literals such as \<open>3.175\<close> and \<open>1e-9\<close> stand for the
  decimal they spell. Infinities and NaN are not values of the model.
\<close>

subsection \<open>Constants (calculation.py, lines 8-20)\<close>

definition PITCH :: rat where "PITCH = 3175 / 1000"
definition GAP_MIN :: rat where "GAP_MIN = 25 / 10"
definition GAP_MAX :: rat where "GAP_MAX = 4"
definition Z_MIN :: int where "Z_MIN = 70"
definition Z_MAX :: int where "Z_MAX = 140"
definition TOTAL_CYLINDER_WIDTH :: int where "TOTAL_CYLINDER_WIDTH = 200"
definition WORKING_WIDTH :: int where "WORKING_WIDTH = 190"
definition WIDTH_GAP :: int where "WIDTH_GAP = 5"
definition WIDTH_WASTE :: int where "WIDTH_WASTE = 10"
definition MAX_MATERIAL_WIDTH :: int where "MAX_MATERIAL_WIDTH = 200"
definition BASE_WASTE_LENGTH :: rat where "BASE_WASTE_LENGTH = 50"
definition WASTE_LENGTH_PER_COLOR :: rat where "WASTE_LENGTH_PER_COLOR = 50"
definition SETUP_TIME_PER_COLOR_OR_BASE :: int where "SETUP_TIME_PER_COLOR_OR_BASE = 30"
definition CLEANUP_TIME_MIN :: int where "CLEANUP_TIME_MIN = 30"
definition GRAMS_INK_PER_M2 :: rat where "GRAMS_INK_PER_M2 = 3"
definition GRAMS_VARNISH_PER_M2 :: rat where "GRAMS_VARNISH_PER_M2 = 4"

text \<open>The literal \<open>1e-9\<close> of lines 46, 51 and 65.\<close>

definition tolerance :: rat where "tolerance = 1 / 10 ^ 9"

subsection \<open>Python built-ins used by the source\<close>

text \<open>\<open>str\<close> of a non-negative integer: its decimal digits.\<close>

definition digit_char :: "nat \<Rightarrow> char" where
  "digit_char d = char_of (48 + d)"

fun show_nat :: "nat \<Rightarrow> string" where
  "show_nat n = (if n < 10 then [digit_char n] else show_nat (n div 10) @ [digit_char (n mod 10)])"

declare show_nat.simps [simp del]

definition show_int :: "int \<Rightarrow> string" where
  "show_int i = (if i < 0 then CHR ''-'' # show_nat (nat (- i)) else show_nat (nat i))"

text \<open>
  \<open>round(x)\<close> with one argument: the nearest integer, a tie going to the even neighbour.
\<close>

definition py_round :: "rat \<Rightarrow> int" where
  "py_round x =
     (let f = \<lfloor>x\<rfloor>; d = x - of_int f
      in if d < 1 / 2 then f else if 1 / 2 < d then f + 1 else if even f then f else f + 1)"

text \<open>
  The format specification \<open>:.kf\<close> for \<open>k > 0\<close>: the value rounded to \<open>k\<close> decimals
  (ties to even), printed with a sign when negative, the integer part, a point and exactly
  \<open>k\<close> digits.
\<close>

definition pad_zeros :: "nat \<Rightarrow> string \<Rightarrow> string" where
  "pad_zeros k s = replicate (k - length s) CHR ''0'' @ s"

definition format_fixed :: "nat \<Rightarrow> rat \<Rightarrow> string" where
  "format_fixed k x =
     (let s = nat (py_round (\<bar>x\<bar> * 10 ^ k))
      in (if x < 0 then ''-'' else '''') @ show_nat (s div 10 ^ k) @ ''.'' @
         pad_zeros k (show_nat (s mod 10 ^ k)))"

subsection \<open>Geometry search (calculation.py, lines 41-58)\<close>

text \<open>The dictionary appended at line 53, with its four keys as fields.\<close>

record solution =
  number_of_teeth_Z :: int
  circumference_mm :: rat
  templates_N_circumference :: int
  gap_G_circumference_mm :: rat

text \<open>
  The body of the inner loop (lines 49-53) for one \<open>n\<close>, threading \<open>valid_solutions\<close>.
\<close>

definition inner_step :: "rat \<Rightarrow> int \<Rightarrow> int \<Rightarrow> solution list \<Rightarrow> solution list" where
  "inner_step template_width_W z n valid_solutions =
     (if n = 0 then valid_solutions
      else
        let circumference_C = of_int z * PITCH;
            gap_G_circumference = circumference_C / of_int n - template_width_W
        in if GAP_MIN - tolerance \<le> gap_G_circumference \<and>
              gap_G_circumference \<le> GAP_MAX + tolerance
           then valid_solutions @
                [\<lparr>number_of_teeth_Z = z, circumference_mm = circumference_C,
                  templates_N_circumference = n,
                  gap_G_circumference_mm = gap_G_circumference\<rparr>]
           else valid_solutions)"

text \<open>\<open>n_max_possible\<close> of line 47.\<close>

definition n_max_possible :: "rat \<Rightarrow> int \<Rightarrow> int" where
  "n_max_possible template_width_W z = \<lfloor>of_int z * PITCH / (template_width_W + GAP_MIN)\<rfloor>"

text \<open>The body of the outer loop (lines 45-53) for one \<open>z\<close>.\<close>

definition outer_step :: "rat \<Rightarrow> int \<Rightarrow> solution list \<Rightarrow> solution list" where
  "outer_step template_width_W z valid_solutions =
     (if template_width_W + GAP_MIN \<le> tolerance then valid_solutions
      else fold (inner_step template_width_W z) [1 .. n_max_possible template_width_W z]
             valid_solutions)"

text \<open>The two loops of lines 44-53: \<open>valid_solutions\<close> before the sort.\<close>

definition enumerate_solutions :: "rat \<Rightarrow> solution list" where
  "enumerate_solutions template_width_W = fold (outer_step template_width_W) [Z_MIN .. Z_MAX] []"

text \<open>The sort key of line 57; pairs are compared lexicographically, as Python tuples are.\<close>

definition sort_key_of :: "solution \<Rightarrow> int \<times> int" where
  "sort_key_of x = (number_of_teeth_Z x, - templates_N_circumference x)"

text \<open>The diagnostics of lines 43, 55 and 58.\<close>

definition error_message :: string where
  "error_message = ''Error: Template width must be > 0.''"

definition no_cylinder_message :: "rat \<Rightarrow> string" where
  "no_cylinder_message template_width_W =
     ''No cylinder found ('' @ show_int Z_MIN @ ''-'' @ show_int Z_MAX @ '' teeth) for W='' @
     format_fixed 3 template_width_W @ ''mm with G='' @ format_fixed 1 GAP_MIN @ ''-'' @
     format_fixed 1 GAP_MAX @ ''mm.''"

definition ok_message :: string where
  "ok_message = ''Circumference calculation OK.''"

text \<open>
  \<open>list.sort(key=...)\<close> is a stable sort, as \<^const>\<open>sort_key\<close> is. \<open>valid_solutions[0]\<close>
  is read only when the list is not empty.
\<close>

definition find_cylinder_specifications :: "rat \<Rightarrow> solution option \<times> solution list \<times> string" where
  "find_cylinder_specifications template_width_W =
     (if template_width_W \<le> 0 then (None, [], error_message)
      else
        let valid_solutions = enumerate_solutions template_width_W
        in if valid_solutions = [] then (None, [], no_cylinder_message template_width_W)
           else
             let sorted_solutions = sort_key sort_key_of valid_solutions
             in (Some (hd sorted_solutions), sorted_solutions, ok_message))"

subsection \<open>Width layout (calculation.py, lines 60-72)\<close>

text \<open>
  The caller passes a float height and the integer constants \<open>WORKING_WIDTH\<close> and
  \<open>WIDTH_GAP\<close>; the function itself accepts any numbers, so all three are rationals here.
\<close>

definition calculate_number_across_width :: "rat \<Rightarrow> rat \<Rightarrow> rat \<Rightarrow> int" where
  "calculate_number_across_width template_height_H working_width width_gap =
     (if template_height_H \<le> 0 then 0
      else if template_height_H > working_width then 0
      else if template_height_H \<le> working_width \<and>
              template_height_H * 2 + width_gap > working_width then 1
      else
        let denominator = template_height_H + width_gap
        in if denominator \<le> tolerance then 0
           else \<lfloor>(working_width + width_gap) / denominator\<rfloor>)"

definition calculate_material_width :: "int \<Rightarrow> rat \<Rightarrow> rat \<Rightarrow> rat \<Rightarrow> rat" where
  "calculate_material_width number_across_width_y template_height_H width_gap width_waste =
     (if number_across_width_y \<le> 0 then 0
      else
        let total_template_width = of_int number_across_width_y * template_height_H;
            total_gap_width = of_int (max 0 (number_across_width_y - 1)) * width_gap
        in total_template_width + total_gap_width + width_waste)"

subsection \<open>Time formatting (calculation.py, lines 74-81)\<close>

text \<open>
  \<open>divmod(t, 60)\<close> is \<open>(t div 60, t mod 60)\<close>: Python's floor division and HOL's
  \<open>div\<close> agree for a positive divisor.
\<close>

definition format_time :: "rat \<Rightarrow> string" where
  "format_time total_minutes =
     (if total_minutes < 0 then ''N/A''
      else
        let total_minutes = py_round total_minutes
        in if total_minutes = 0 then ''0 min''
           else if total_minutes < 60 then show_int total_minutes @ '' min''
           else
             let hours = total_minutes div 60; minutes = total_minutes mod 60
             in if minutes = 0 then show_int hours @ '' h''
                else show_int hours @ '' h '' @ show_int minutes @ '' min'')"

subsection \<open>The costing pipeline (calculation.py, lines 136-213)\<close>

text \<open>
  The script reads its inputs from widgets and from the session state; here they are one
  record. The display strings built along the way (\<open>waste_description\<close>,
  \<open>tool_description_display\<close> and the like) do not flow into any number and are left out.
\<close>

datatype tool_key = Tool_None | Semirotary | Rotary

record inputs =
  template_width_W_input :: rat
  template_height_H_input :: rat
  quantity_input :: int
  is_blank :: bool
  num_colors_input :: int
  is_uv_varnish_input :: bool
  machine_speed_m_min :: int
  selected_tool_key :: tool_key
  selected_material :: string
  price_per_m2_input :: rat
  profit_coefficient_input :: rat
  ink_price_per_kg :: rat
  varnish_price_per_kg :: rat
  plate_price_per_color :: rat
  machine_labor_price_per_hour :: rat
  tool_price_semirotary :: rat
  tool_price_rotary :: rat

text \<open>
  Line 136. A number is truthy when it is not zero, a string when it is not empty; the
  \<open>is not None\<close> tests hold for every value a widget returns.
\<close>

definition inputs_valid :: "inputs \<Rightarrow> bool" where
  "inputs_valid i \<longleftrightarrow>
     template_width_W_input i \<noteq> 0 \<and> template_height_H_input i \<noteq> 0 \<and> quantity_input i > 0 \<and>
     machine_speed_m_min i \<noteq> 0 \<and> selected_material i \<noteq> []"

text \<open>The locals of lines 148-213, one field each.\<close>

record quote =
  number_across_width_y :: int
  number_circumference_x :: int
  gap_G_mm :: rat
  total_templates_per_cycle :: int
  valid_num_colors_for_calc :: int
  required_material_width_mm :: rat
  material_width_exceeded :: bool
  total_production_length_m :: rat
  total_production_area_m2 :: rat
  num_colors_for_waste_time :: int
  waste_length_m :: rat
  waste_area_m2 :: rat
  total_final_length_m :: rat
  total_final_area_m2 :: rat
  setup_time_min :: int
  production_time_min :: rat
  cleanup_time_min :: int
  total_time_min :: rat
  ink_cost_rsd :: rat
  varnish_cost_rsd :: rat
  total_ink_varnish_cost_rsd :: rat
  total_plate_cost_rsd :: rat
  total_material_cost_rsd :: rat
  total_machine_labor_cost_rsd :: rat
  total_tool_cost_rsd :: rat
  total_production_cost_rsd :: rat
  profit_rsd :: rat
  total_selling_price_rsd :: rat
  selling_price_per_piece_rsd :: rat

text \<open>Line 150.\<close>

definition calc_valid_num_colors :: "bool \<Rightarrow> int \<Rightarrow> int" where
  "calc_valid_num_colors blank colors =
     (if blank then 0 else if colors \<ge> 1 then colors else 1)"

text \<open>Lines 157-161.\<close>

definition calc_production_length :: "int \<Rightarrow> rat \<Rightarrow> rat \<Rightarrow> int \<Rightarrow> rat" where
  "calc_production_length y W gap quantity =
     (if y > 0 then (of_int quantity / of_int y) * (W + gap) / 1000 else 0)"

definition calc_production_area :: "int \<Rightarrow> rat \<Rightarrow> rat \<Rightarrow> rat" where
  "calc_production_area y width production_length =
     (if width > 0 \<and> y > 0 then production_length * (width / 1000) else 0)"

text \<open>Lines 164-167.\<close>

definition calc_num_colors_for_waste_time :: "bool \<Rightarrow> int \<Rightarrow> int" where
  "calc_num_colors_for_waste_time blank valid_colors = (if blank then 1 else valid_colors)"

definition calc_waste_length :: "bool \<Rightarrow> int \<Rightarrow> rat" where
  "calc_waste_length blank valid_colors =
     (if blank then BASE_WASTE_LENGTH
      else BASE_WASTE_LENGTH + of_int valid_colors * WASTE_LENGTH_PER_COLOR)"

definition calc_waste_area :: "rat \<Rightarrow> rat \<Rightarrow> rat" where
  "calc_waste_area width waste_length = (if width > 0 then waste_length * (width / 1000) else 0)"

text \<open>Lines 174-176.\<close>

definition calc_setup_time :: "int \<Rightarrow> int" where
  "calc_setup_time colors_for_waste_time = colors_for_waste_time * SETUP_TIME_PER_COLOR_OR_BASE"

definition calc_production_time :: "rat \<Rightarrow> int \<Rightarrow> rat" where
  "calc_production_time production_length speed =
     (if production_length > 0 \<and> speed > 0 then production_length / of_int speed else 0)"

text \<open>Lines 180-187.\<close>

definition calc_ink_cost :: "bool \<Rightarrow> int \<Rightarrow> rat \<Rightarrow> rat \<Rightarrow> rat" where
  "calc_ink_cost blank valid_colors production_area ink_price =
     (if \<not> blank \<and> valid_colors > 0 \<and> production_area > 0
      then production_area * of_int valid_colors * GRAMS_INK_PER_M2 / 1000 * ink_price else 0)"

definition calc_varnish_cost :: "bool \<Rightarrow> rat \<Rightarrow> rat \<Rightarrow> rat" where
  "calc_varnish_cost uv production_area varnish_price =
     (if uv \<and> production_area > 0
      then production_area * GRAMS_VARNISH_PER_M2 / 1000 * varnish_price else 0)"

definition calc_plate_cost :: "bool \<Rightarrow> int \<Rightarrow> rat \<Rightarrow> rat" where
  "calc_plate_cost blank valid_colors plate_price =
     (if \<not> blank \<and> valid_colors > 0 then of_int valid_colors * plate_price else 0)"

text \<open>Lines 190-195.\<close>

definition calc_material_cost :: "rat \<Rightarrow> rat \<Rightarrow> rat" where
  "calc_material_cost final_area price_per_m2 =
     (if final_area > 0 \<and> price_per_m2 \<ge> 0 then final_area * price_per_m2 else 0)"

definition calc_machine_labor_cost :: "rat \<Rightarrow> rat \<Rightarrow> rat" where
  "calc_machine_labor_cost time_min labor_price =
     (if time_min > 0 \<and> labor_price \<ge> 0 then time_min / 60 * labor_price else 0)"

text \<open>Lines 198-200.\<close>

definition calc_tool_cost :: "tool_key \<Rightarrow> rat \<Rightarrow> rat \<Rightarrow> rat" where
  "calc_tool_cost key price_semirotary price_rotary =
     (case key of Semirotary \<Rightarrow> price_semirotary | Rotary \<Rightarrow> price_rotary | Tool_None \<Rightarrow> 0)"

text \<open>Lines 208-213.\<close>

definition calc_profit :: "rat \<Rightarrow> rat \<Rightarrow> rat" where
  "calc_profit material_cost coefficient =
     (if material_cost > 0 \<and> coefficient > 0 then material_cost * coefficient else 0)"

definition calc_price_per_piece :: "rat \<Rightarrow> int \<Rightarrow> rat" where
  "calc_price_per_piece selling_price quantity =
     (if quantity > 0 then selling_price / of_int quantity else 0)"

text \<open>
  The quote for a best solution \<open>best\<close> (lines 148-213), in the source's order.
\<close>

definition quote_of :: "inputs \<Rightarrow> solution \<Rightarrow> quote" where
  "quote_of i best =
     (let y = calculate_number_across_width (template_height_H_input i)
                (of_int WORKING_WIDTH) (of_int WIDTH_GAP);
          x = templates_N_circumference best;
          gap = gap_G_circumference_mm best;
          colors = calc_valid_num_colors (is_blank i) (num_colors_input i);
          width = calculate_material_width y (template_height_H_input i)
                    (of_int WIDTH_GAP) (of_int WIDTH_WASTE);
          production_length =
            calc_production_length y (template_width_W_input i) gap (quantity_input i);
          production_area = calc_production_area y width production_length;
          colors_waste = calc_num_colors_for_waste_time (is_blank i) colors;
          waste_length = calc_waste_length (is_blank i) colors;
          waste_area = calc_waste_area width waste_length;
          final_length = production_length + waste_length;
          final_area = production_area + waste_area;
          setup_time = calc_setup_time colors_waste;
          production_time = calc_production_time production_length (machine_speed_m_min i);
          total_time = of_int setup_time + production_time + of_int CLEANUP_TIME_MIN;
          ink_cost = calc_ink_cost (is_blank i) colors production_area (ink_price_per_kg i);
          varnish_cost =
            calc_varnish_cost (is_uv_varnish_input i) production_area (varnish_price_per_kg i);
          plate_cost = calc_plate_cost (is_blank i) colors (plate_price_per_color i);
          material_cost = calc_material_cost final_area (price_per_m2_input i);
          labor_cost = calc_machine_labor_cost total_time (machine_labor_price_per_hour i);
          tool_cost = calc_tool_cost (selected_tool_key i) (tool_price_semirotary i)
                        (tool_price_rotary i);
          production_cost = (ink_cost + varnish_cost) + plate_cost + material_cost +
                            labor_cost + tool_cost;
          profit = calc_profit material_cost (profit_coefficient_input i);
          selling_price = production_cost + profit
      in \<lparr>number_across_width_y = y,
          number_circumference_x = x,
          gap_G_mm = gap,
          total_templates_per_cycle = y * x,
          valid_num_colors_for_calc = colors,
          required_material_width_mm = width,
          material_width_exceeded = (width > of_int MAX_MATERIAL_WIDTH),
          total_production_length_m = production_length,
          total_production_area_m2 = production_area,
          num_colors_for_waste_time = colors_waste,
          waste_length_m = waste_length,
          waste_area_m2 = waste_area,
          total_final_length_m = final_length,
          total_final_area_m2 = final_area,
          setup_time_min = setup_time,
          production_time_min = production_time,
          cleanup_time_min = CLEANUP_TIME_MIN,
          total_time_min = total_time,
          ink_cost_rsd = ink_cost,
          varnish_cost_rsd = varnish_cost,
          total_ink_varnish_cost_rsd = ink_cost + varnish_cost,
          total_plate_cost_rsd = plate_cost,
          total_material_cost_rsd = material_cost,
          total_machine_labor_cost_rsd = labor_cost,
          total_tool_cost_rsd = tool_cost,
          total_production_cost_rsd = production_cost,
          profit_rsd = profit,
          total_selling_price_rsd = selling_price,
          selling_price_per_piece_rsd = calc_price_per_piece selling_price (quantity_input i)\<rparr>)"

text \<open>
  Lines 138-144 and 301-307: a quote is computed only for valid inputs and when the geometry
  search returns a best solution; otherwise the script shows a message and no number.
\<close>

definition compute_quote :: "inputs \<Rightarrow> quote option" where
  "compute_quote i =
     (if inputs_valid i then
        (case fst (find_cylinder_specifications (template_width_W_input i)) of
           None \<Rightarrow> None
         | Some best \<Rightarrow> Some (quote_of i best))
      else None)"

subsection \<open>Notions used in the statements\<close>


abbreviation all_solutions :: "rat \<Rightarrow> solution list" where
  "all_solutions W \<equiv> fst (snd (find_cylinder_specifications W))"

abbreviation diagnostic :: "rat \<Rightarrow> string" where
  "diagnostic W \<equiv> snd (snd (find_cylinder_specifications W))"

text \<open>
  The gap for a pair \<open>(z, n)\<close>, the test of line 52 together with the guard of line 49,
  the dictionary of line 53, and what one pass of the outer loop appends.
\<close>

definition gap_of :: "rat \<Rightarrow> int \<Rightarrow> int \<Rightarrow> rat" where
  "gap_of W z n = of_int z * PITCH / of_int n - W"

definition accepted :: "rat \<Rightarrow> int \<Rightarrow> int \<Rightarrow> bool" where
  "accepted W z n \<longleftrightarrow>
     n \<noteq> 0 \<and> GAP_MIN - tolerance \<le> gap_of W z n \<and> gap_of W z n \<le> GAP_MAX + tolerance"

definition solution_of :: "rat \<Rightarrow> int \<Rightarrow> int \<Rightarrow> solution" where
  "solution_of W z n =
     \<lparr>number_of_teeth_Z = z, circumference_mm = of_int z * PITCH,
      templates_N_circumference = n, gap_G_circumference_mm = gap_of W z n\<rparr>"

definition row_of :: "rat \<Rightarrow> int \<Rightarrow> solution list" where
  "row_of W z =
     (if W + GAP_MIN \<le> tolerance then []
      else map (solution_of W z) (filter (accepted W z) [1 .. n_max_possible W z]))"





text \<open>
  A job to evaluate the pipeline on: the widgets' default values, with the blank box ticked
  and four colours selected.
\<close>

definition example_inputs :: inputs where
  "example_inputs =
     \<lparr>template_width_W_input = 76, template_height_H_input = 76, quantity_input = 100000,
      is_blank = True, num_colors_input = 4, is_uv_varnish_input = False,
      machine_speed_m_min = 30, selected_tool_key = Tool_None,
      selected_material = ''Paper (chrome)'', price_per_m2_input = 3995 / 100,
      profit_coefficient_input = 2 / 10, ink_price_per_kg = 2350, varnish_price_per_kg = 1800,
      plate_price_per_color = 2000, machine_labor_price_per_hour = 3000,
      tool_price_semirotary = 6000, tool_price_rotary = 8000\<rparr>"

section \<open>The geometry search\<close>

subsection \<open>The loops as a comprehension\<close>

lemma inner_step_eq:
  "inner_step W z n acc = (if accepted W z n then acc @ [solution_of W z n] else acc)"
  by (simp add: inner_step_def accepted_def solution_of_def gap_of_def Let_def)

lemma fold_inner_step:
  "fold (inner_step W z) ns acc = acc @ map (solution_of W z) (filter (accepted W z) ns)"
  by (induction ns arbitrary: acc) (simp_all add: inner_step_eq)

lemma outer_step_eq: "outer_step W z acc = acc @ row_of W z"
  by (simp add: outer_step_def row_of_def fold_inner_step)

lemma fold_outer_step: "fold (outer_step W) zs acc = acc @ concat (map (row_of W) zs)"
  by (induction zs arbitrary: acc) (simp_all add: outer_step_eq)

lemma enumerate_solutions_eq:
  "enumerate_solutions W = concat (map (row_of W) [Z_MIN .. Z_MAX])"
  by (simp add: enumerate_solutions_def fold_outer_step)

lemma set_enumerate_solutions:
  "s \<in> set (enumerate_solutions W) \<longleftrightarrow>
     (\<exists>z n. s = solution_of W z n \<and> Z_MIN \<le> z \<and> z \<le> Z_MAX \<and> tolerance < W + GAP_MIN \<and>
            1 \<le> n \<and> n \<le> n_max_possible W z \<and> accepted W z n)"
  unfolding enumerate_solutions_eq row_of_def by auto blast

lemma set_all_solutions:
  "set (all_solutions W) = (if W \<le> 0 then {} else set (enumerate_solutions W))"
  by (simp add: find_cylinder_specifications_def Let_def)


lemma solution_of_fields:
  "number_of_teeth_Z (solution_of W z n) = z"
  "circumference_mm (solution_of W z n) = of_int z * PITCH"
  "templates_N_circumference (solution_of W z n) = n"
  "gap_G_circumference_mm (solution_of W z n) = gap_of W z n"
  by (simp_all add: solution_of_def)



subsection \<open>The sort\<close>





subsection \<open>The search at \<open>W = 76\<close>\<close>

lemma find_76:
  "find_cylinder_specifications 76 =
     (Some (solution_of 76 75 3),
      [solution_of 76 75 3, solution_of 76 99 4, solution_of 76 100 4,
       solution_of 76 124 5, solution_of 76 125 5],
      ok_message)"
  by code_simp

section \<open>The claims about the geometry search\<close>

text \<open>
  C1. For every template width \<open>W > 0\<close> for which the search returns a non-empty sequence,
  every solution in it has a tooth count in \<open>[Z_MIN, Z_MAX]\<close>, a circumference equal to
  \<open>Z * PITCH\<close>, a repeat count \<open>N \<ge> 1\<close>, and a gap \<open>circumference / N - W\<close> (which is
  the gap it stores) in \<open>[GAP_MIN - 1e-9, GAP_MAX + 1e-9]\<close>.
\<close>

theorem C1_solutions_valid:
  assumes "0 < W" and "all_solutions W \<noteq> []"
  shows "\<forall>s \<in> set (all_solutions W).
           Z_MIN \<le> number_of_teeth_Z s \<and> number_of_teeth_Z s \<le> Z_MAX \<and>
           circumference_mm s = of_int (number_of_teeth_Z s) * PITCH \<and>
           1 \<le> templates_N_circumference s \<and>
           gap_G_circumference_mm s =
             circumference_mm s / of_int (templates_N_circumference s) - W \<and>
           GAP_MIN - tolerance \<le> circumference_mm s / of_int (templates_N_circumference s) - W \<and>
           circumference_mm s / of_int (templates_N_circumference s) - W \<le> GAP_MAX + tolerance"
proof
  fix s
  assume "s \<in> set (all_solutions W)"
  with assms(1) have "s \<in> set (enumerate_solutions W)"
    by (simp add: set_all_solutions)
  then obtain z n where s: "s = solution_of W z n" and z: "Z_MIN \<le> z" "z \<le> Z_MAX"
    and n: "1 \<le> n" and a: "accepted W z n"
    unfolding set_enumerate_solutions by blast
  from a have "GAP_MIN - tolerance \<le> gap_of W z n" "gap_of W z n \<le> GAP_MAX + tolerance"
    by (simp_all add: accepted_def)
  with s z n show "Z_MIN \<le> number_of_teeth_Z s \<and> number_of_teeth_Z s \<le> Z_MAX \<and>
           circumference_mm s = of_int (number_of_teeth_Z s) * PITCH \<and>
           1 \<le> templates_N_circumference s \<and>
           gap_G_circumference_mm s =
             circumference_mm s / of_int (templates_N_circumference s) - W \<and>
           GAP_MIN - tolerance \<le> circumference_mm s / of_int (templates_N_circumference s) - W \<and>
           circumference_mm s / of_int (templates_N_circumference s) - W \<le> GAP_MAX + tolerance"
    by (simp add: solution_of_fields gap_of_def)
qed

theorem C1_solutions_valid_witness:
  "(0::rat) < 76 \<and> all_solutions 76 \<noteq> [] \<and>
   solution_of 76 99 4 \<in> set (all_solutions 76) \<and>
   Z_MIN \<le> 99 \<and> 99 \<le> Z_MAX \<and>
   circumference_mm (solution_of 76 99 4) = 99 * PITCH \<and>
   gap_G_circumference_mm (solution_of 76 99 4) = 99 * PITCH / 4 - 76 \<and>
   GAP_MIN - tolerance \<le> 99 * PITCH / 4 - 76 \<and> 99 * PITCH / 4 - 76 \<le> GAP_MAX + tolerance"
proof -
  have pos: "(0::rat) < 76" by simp
  have ne: "all_solutions 76 \<noteq> []" by (simp add: find_76)
  have m: "solution_of 76 99 4 \<in> set (all_solutions 76)" by (simp add: find_76)
  from C1_solutions_valid [OF pos ne, THEN bspec, OF m] pos ne m show ?thesis
    by (simp add: solution_of_fields)
qed






text \<open>
  C4. For every \<open>W \<le> 0\<close> the search returns \<open>None\<close>, the empty sequence and the diagnostic
  of line 43. That diagnostic contains \<open>must be\<close>, and it differs from the diagnostic of
  line 55 for every width: the latter contains \<open>No cylinder found\<close> (the text the caller
  tests for at line 302), the former does not.
\<close>

theorem C4_invalid_width:
  assumes "W \<le> 0"
  shows "find_cylinder_specifications W = (None, [], error_message) \<and>
         sublist ''must be'' error_message \<and>
         (\<forall>W'. no_cylinder_message W' \<noteq> error_message) \<and>
         (\<forall>W'. sublist ''No cylinder found'' (no_cylinder_message W')) \<and>
         \<not> sublist ''No cylinder found'' error_message"
proof -
  have r: "find_cylinder_specifications W = (None, [], error_message)"
    using assms by (simp add: find_cylinder_specifications_def)
  have "error_message = ''Error: Template width '' @ ''must be'' @ '' > 0.''"
    by (simp add: error_message_def)
  then have m: "sublist ''must be'' error_message"
    unfolding sublist_def by blast
  have p: "sublist ''No cylinder found'' (no_cylinder_message W')" for W'
    by (rule prefix_imp_sublist) (simp add: no_cylinder_message_def)
  have n: "\<not> sublist ''No cylinder found'' error_message"
    unfolding error_message_def by code_simp
  from p n have d: "no_cylinder_message W' \<noteq> error_message" for W'
    by metis
  from r m d p n show ?thesis by blast
qed

theorem C4_invalid_width_witness:
  "(- 1 :: rat) \<le> 0 \<and> find_cylinder_specifications (- 1) = (None, [], error_message) \<and>
   find_cylinder_specifications 0 = (None, [], ''Error: Template width must be > 0.'') \<and>
   sublist ''must be'' error_message"
proof -
  have a: "(- 1 :: rat) \<le> 0" and b: "(0 :: rat) \<le> 0" by simp_all
  show ?thesis
    using a C4_invalid_width [OF a] C4_invalid_width [OF b] by (simp add: error_message_def)
qed

section \<open>The width layout\<close>

lemma number_across_width_cases:
  assumes "0 < H" "tolerance < H + g"
  shows "calculate_number_across_width H u g =
           (if u < H then 0 else if u < H * 2 + g then 1 else \<lfloor>(u + g) / (H + g)\<rfloor>)"
  using assms by (auto simp: calculate_number_across_width_def Let_def)

lemma floor_case_ge_2:
  assumes "tolerance < H + g" "H * 2 + g \<le> u" "H \<le> u"
  shows "2 \<le> \<lfloor>(u + g) / (H + g)\<rfloor>"
proof -
  have p: "0 < H + g" using assms(1) by (simp add: tolerance_def)
  have "2 * (H + g) \<le> u + g" using assms p by simp
  with p have "2 \<le> (u + g) / (H + g)" by (simp add: pos_le_divide_eq)
  then show ?thesis by (simp add: le_floor_iff)
qed




text \<open>
  C6, as stated, fails. With the constants of the program (usable width \<open>190\<close>, gap \<open>5\<close>)
  a height \<open>0\<close> gives \<open>0\<close> labels and the larger height \<open>76\<close> gives \<open>2\<close>: line 61
  returns \<open>0\<close> for a height that is not positive. With gap \<open>0\<close> the positive height
  \<open>1e-10\<close> gives \<open>0\<close> (line 65) and the larger height \<open>100\<close> gives \<open>1\<close>.
\<close>

theorem C6_not_monotone:
  "(0 :: rat) \<le> 76 \<and>
   calculate_number_across_width 0 190 5 = 0 \<and> calculate_number_across_width 76 190 5 = 2 \<and>
   \<not> calculate_number_across_width 76 190 5 \<le> calculate_number_across_width 0 190 5 \<and>
   (1 / 10 ^ 10 :: rat) \<le> 100 \<and>
   calculate_number_across_width (1 / 10 ^ 10) 190 0 = 0 \<and>
   calculate_number_across_width 100 190 0 = 1 \<and>
   \<not> calculate_number_across_width 100 190 0 \<le> calculate_number_across_width (1 / 10 ^ 10) 190 0"
  by (simp add: calculate_number_across_width_def tolerance_def floor_eq_iff)

text \<open>
  C6, amended. For every usable width \<open>u\<close> and width gap \<open>g\<close>, and all heights
  \<open>0 < H1 \<le> H2\<close> with \<open>H1 + g > 1e-9\<close>, the count for \<open>H2\<close> is at most the count for
  \<open>H1\<close>.
\<close>

theorem C6_monotone:
  assumes "0 < H1" "H1 \<le> H2" "tolerance < H1 + g"
  shows "calculate_number_across_width H2 u g \<le> calculate_number_across_width H1 u g"
proof -
  have H2: "0 < H2" "tolerance < H2 + g" using assms by simp_all
  have p1: "0 < H1 + g" using assms(3) by (simp add: tolerance_def)
  note c1 = number_across_width_cases [OF assms(1) assms(3), of u]
  note c2 = number_across_width_cases [OF H2, of u]
  consider "u < H2" | "H2 \<le> u" "u < H2 * 2 + g" | "H2 \<le> u" "H2 * 2 + g \<le> u"
    by linarith
  then show ?thesis
  proof cases
    case 1
    have "0 \<le> calculate_number_across_width H1 u g"
      unfolding c1 using floor_case_ge_2 [OF assms(3), of u] by auto
    with 1 show ?thesis by (simp add: c2)
  next
    case 2
    have "1 \<le> calculate_number_across_width H1 u g"
      unfolding c1 using floor_case_ge_2 [OF assms(3), of u] 2 assms(2) by auto
    with 2 show ?thesis by (simp add: c2)
  next
    case 3
    with assms(2) have h1: "H1 \<le> u" "H1 * 2 + g \<le> u" by simp_all
    have ug: "0 \<le> u + g" using p1 h1 by linarith
    have "(u + g) / (H2 + g) \<le> (u + g) / (H1 + g)"
      using ug p1 assms(2) by (simp add: divide_left_mono frac_le)
    then have "\<lfloor>(u + g) / (H2 + g)\<rfloor> \<le> \<lfloor>(u + g) / (H1 + g)\<rfloor>" by (rule floor_mono)
    with 3 h1 show ?thesis by (simp add: c1 c2)
  qed
qed

theorem C6_monotone_witness:
  "(0 :: rat) < 50 \<and> (50 :: rat) \<le> 76 \<and> tolerance < (50 :: rat) + 5 \<and>
   calculate_number_across_width 76 190 5 \<le> calculate_number_across_width 50 190 5 \<and>
   calculate_number_across_width 76 190 5 = 2 \<and> calculate_number_across_width 50 190 5 = 3"
proof -
  have a: "(0 :: rat) < 50" and b: "(50 :: rat) \<le> 76" by simp_all
  have c: "tolerance < (50 :: rat) + 5" by (simp add: tolerance_def)
  have d: "calculate_number_across_width 76 190 5 = 2 \<and> calculate_number_across_width 50 190 5 = 3"
    by (simp add: calculate_number_across_width_def tolerance_def floor_eq_iff)
  from a b c d C6_monotone [OF a b c, of 190] show ?thesis by blast
qed

section \<open>Time formatting\<close>

lemma py_round_nearest: "\<bar>of_int (py_round x) - x\<bar> \<le> 1 / 2"
proof -
  define f where "f = \<lfloor>x\<rfloor>"
  have b: "of_int f \<le> x" "x < of_int f + 1" unfolding f_def by linarith+
  have c: "x - of_int f < 1 / 2 \<or> 1 / 2 < x - of_int f \<or> x - of_int f = 1 / 2"
    by linarith
  have e: "py_round x = (if x - of_int f < 1 / 2 then f else if 1 / 2 < x - of_int f then f + 1
               else if even f then f else f + 1)"
    unfolding py_round_def Let_def f_def by (rule refl)
  from c show ?thesis unfolding e
  proof (elim disjE)
    assume "x - of_int f < 1 / 2"
    with b show "\<bar>of_int (if x - of_int f < 1 / 2 then f else if 1 / 2 < x - of_int f then f + 1
               else if even f then f else f + 1) - x\<bar> \<le> 1 / 2" by simp
  next
    assume "1 / 2 < x - of_int f"
    with b show "\<bar>of_int (if x - of_int f < 1 / 2 then f else if 1 / 2 < x - of_int f then f + 1
               else if even f then f else f + 1) - x\<bar> \<le> 1 / 2" by simp
  next
    assume "x - of_int f = 1 / 2"
    with b show "\<bar>of_int (if x - of_int f < 1 / 2 then f else if 1 / 2 < x - of_int f then f + 1
               else if even f then f else f + 1) - x\<bar> \<le> 1 / 2"
      by (cases "even f") simp_all
  qed
qed

lemma py_round_nonneg: "0 \<le> x \<Longrightarrow> 0 \<le> py_round x"
  by (auto simp: py_round_def Let_def)

lemma show_int_values:
  "show_int 59 = ''59''" "show_int 2 = ''2''" "show_int 5 = ''5''" "show_int 1 = ''1''"
  by code_simp+

text \<open>
  C9. A negative number of minutes formats as \<open>N/A\<close>. Otherwise the input is rounded to a
  nearest integer \<open>t\<close> (\<open>round\<close>: at most one half away, a tie going to the even
  neighbour), which is not negative, and the result is \<open>0 min\<close> if \<open>t = 0\<close>, \<open>t min\<close> if
  \<open>t < 60\<close>, \<open>H h\<close> with \<open>H = t div 60\<close> if \<open>t\<close> is a positive multiple of \<open>60\<close>, and
  \<open>H h M min\<close> with \<open>M = t mod 60\<close> otherwise.
\<close>

theorem C9_format_time:
  "(m < 0 \<longrightarrow> format_time m = ''N/A'') \<and>
   (0 \<le> m \<longrightarrow>
      \<bar>of_int (py_round m) - m\<bar> \<le> 1 / 2 \<and> 0 \<le> py_round m \<and>
      (py_round m = 0 \<longrightarrow> format_time m = ''0 min'') \<and>
      (0 < py_round m \<and> py_round m < 60 \<longrightarrow>
         format_time m = show_int (py_round m) @ '' min'') \<and>
      (60 \<le> py_round m \<and> py_round m mod 60 = 0 \<longrightarrow>
         format_time m = show_int (py_round m div 60) @ '' h'') \<and>
      (60 \<le> py_round m \<and> py_round m mod 60 \<noteq> 0 \<longrightarrow>
         format_time m = show_int (py_round m div 60) @ '' h '' @
                         show_int (py_round m mod 60) @ '' min''))"
  using py_round_nearest [of m] py_round_nonneg [of m]
  by (auto simp: format_time_def Let_def)

theorem C9_format_time_witness:
  "format_time (- 1 / 2) = ''N/A'' \<and> format_time (1 / 2) = ''0 min'' \<and>
   format_time 59 = ''59 min'' \<and> format_time (119 / 2) = ''1 h'' \<and>
   format_time 125 = ''2 h 5 min''"
proof -
  have r: "py_round (1 / 2) = 0" "py_round 59 = 59" "py_round (119 / 2) = 60"
    "py_round 125 = 125"
    by code_simp+
  show ?thesis
    using C9_format_time [of "- 1 / 2"] C9_format_time [of "1 / 2"] C9_format_time [of 59]
      C9_format_time [of "119 / 2"] C9_format_time [of 125]
    by (simp add: r show_int_values)
qed

section \<open>The costing pipeline\<close>

lemma quote_of_fields:
  "waste_length_m (quote_of i best) =
     calc_waste_length (is_blank i) (calc_valid_num_colors (is_blank i) (num_colors_input i))"
  "num_colors_for_waste_time (quote_of i best) =
     calc_num_colors_for_waste_time (is_blank i)
       (calc_valid_num_colors (is_blank i) (num_colors_input i))"
  "setup_time_min (quote_of i best) = calc_setup_time (num_colors_for_waste_time (quote_of i best))"
  "total_material_cost_rsd (quote_of i best) =
     calc_material_cost (total_final_area_m2 (quote_of i best)) (price_per_m2_input i)"
  "total_machine_labor_cost_rsd (quote_of i best) =
     calc_machine_labor_cost (total_time_min (quote_of i best)) (machine_labor_price_per_hour i)"
  "profit_rsd (quote_of i best) =
     calc_profit (total_material_cost_rsd (quote_of i best)) (profit_coefficient_input i)"
  by (simp_all add: quote_of_def Let_def)

lemma compute_quote_Some:
  "compute_quote i = Some q \<Longrightarrow> \<exists>best. q = quote_of i best"
  by (auto simp: compute_quote_def split: if_splits option.splits)

lemma compute_quote_example:
  "compute_quote (example_inputs\<lparr>price_per_m2_input := p, machine_labor_price_per_hour := l,
       profit_coefficient_input := k\<rparr>) =
   Some (quote_of (example_inputs\<lparr>price_per_m2_input := p, machine_labor_price_per_hour := l,
       profit_coefficient_input := k\<rparr>) (solution_of 76 75 3))"
  by (simp add: compute_quote_def inputs_valid_def example_inputs_def find_76)

lemma example_inputs_update:
  "example_inputs\<lparr>price_per_m2_input := 3995 / 100, machine_labor_price_per_hour := 3000,
       profit_coefficient_input := 2 / 10\<rparr> = example_inputs"
  by (simp add: example_inputs_def)

lemma calc_material_cost_nonneg: "0 \<le> calc_material_cost a p"
  by (simp add: calc_material_cost_def)

lemma calc_machine_labor_cost_nonneg: "0 \<le> calc_machine_labor_cost t l"
  by (simp add: calc_machine_labor_cost_def)

lemma quote_of_coefficient:
  "total_material_cost_rsd (quote_of (i\<lparr>profit_coefficient_input := c\<rparr>) best) =
     total_material_cost_rsd (quote_of i best)"
  by (simp add: quote_of_def Let_def)

lemma calc_profit_scale:
  assumes "0 < k"
  shows "calc_profit m (k * c) = k * calc_profit m c"
  using assms by (simp add: calc_profit_def zero_less_mult_iff)

lemma floor_65_27: "\<lfloor>(65 :: rat) / 27\<rfloor> = 2"
  by (simp add: floor_eq_iff)

lemma example_area:
  "total_final_area_m2 (quote_of (example_inputs\<lparr>price_per_m2_input := p,
       machine_labor_price_per_hour := l, profit_coefficient_input := k\<rparr>) (solution_of 76 75 3)) =
     107381 / 160"
  "total_time_min (quote_of (example_inputs\<lparr>price_per_m2_input := p,
       machine_labor_price_per_hour := l, profit_coefficient_input := k\<rparr>) (solution_of 76 75 3)) =
     4615 / 24"
  by (simp_all add: quote_of_def Let_def example_inputs_def solution_of_def gap_of_def PITCH_def
      calculate_number_across_width_def calculate_material_width_def tolerance_def floor_65_27
      WORKING_WIDTH_def WIDTH_GAP_def WIDTH_WASTE_def calc_valid_num_colors_def
      calc_production_length_def calc_production_area_def calc_waste_length_def
      calc_waste_area_def BASE_WASTE_LENGTH_def calc_num_colors_for_waste_time_def
      calc_setup_time_def calc_production_time_def SETUP_TIME_PER_COLOR_OR_BASE_def
      CLEANUP_TIME_MIN_def)

lemma example_fields:
  "price_per_m2_input (example_inputs\<lparr>price_per_m2_input := p,
       machine_labor_price_per_hour := l, profit_coefficient_input := k\<rparr>) = p"
  "machine_labor_price_per_hour (example_inputs\<lparr>price_per_m2_input := p,
       machine_labor_price_per_hour := l, profit_coefficient_input := k\<rparr>) = l"
  "profit_coefficient_input (example_inputs\<lparr>price_per_m2_input := p,
       machine_labor_price_per_hour := l, profit_coefficient_input := k\<rparr>) = k"
  by simp_all

text \<open>
  C7. For every blank job, whatever the selected colour count and the quantity, the waste
  length is the base constant \<open>BASE_WASTE_LENGTH = 50\<close> alone, the colour count used for
  waste and time is \<open>1\<close>, and the setup time is \<open>1 * 30 = 30\<close> minutes; this holds for the
  quote built from any best solution, hence for every quote the script computes.
\<close>

theorem C7_blank_job:
  assumes "is_blank i"
  shows "waste_length_m (quote_of i best) = BASE_WASTE_LENGTH \<and>
         waste_length_m (quote_of i best) = 50 \<and>
         num_colors_for_waste_time (quote_of i best) = 1 \<and>
         setup_time_min (quote_of i best) = 1 * 30 \<and>
         (\<forall>q. compute_quote i = Some q \<longrightarrow>
            waste_length_m q = 50 \<and> num_colors_for_waste_time q = 1 \<and> setup_time_min q = 30)"
proof -
  have a: "waste_length_m (quote_of i b) = 50 \<and> num_colors_for_waste_time (quote_of i b) = 1 \<and>
           setup_time_min (quote_of i b) = 30" for b
    using assms
    by (simp add: quote_of_fields calc_waste_length_def calc_num_colors_for_waste_time_def
        calc_setup_time_def BASE_WASTE_LENGTH_def SETUP_TIME_PER_COLOR_OR_BASE_def)
  have "waste_length_m q = 50 \<and> num_colors_for_waste_time q = 1 \<and> setup_time_min q = 30"
    if "compute_quote i = Some q" for q
    using compute_quote_Some [OF that] a by blast
  with a [of best] show ?thesis by (simp add: BASE_WASTE_LENGTH_def)
qed

theorem C7_blank_job_witness:
  "is_blank example_inputs \<and> num_colors_input example_inputs = 4 \<and>
   quantity_input example_inputs = 100000 \<and>
   compute_quote example_inputs = Some (quote_of example_inputs (solution_of 76 75 3)) \<and>
   waste_length_m (quote_of example_inputs (solution_of 76 75 3)) = 50 \<and>
   num_colors_for_waste_time (quote_of example_inputs (solution_of 76 75 3)) = 1 \<and>
   setup_time_min (quote_of example_inputs (solution_of 76 75 3)) = 30"
proof -
  have b: "is_blank example_inputs" by (simp add: example_inputs_def)
  have c: "compute_quote example_inputs = Some (quote_of example_inputs (solution_of 76 75 3))"
    using compute_quote_example [where p = "3995 / 100" and l = 3000 and k = "2 / 10"]
    unfolding example_inputs_update .
  from b c C7_blank_job [OF b, of "solution_of 76 75 3"] show ?thesis
    by (simp add: example_inputs_def)
qed

text \<open>
  C8. In every quote the profit is \<open>material cost * profit coefficient\<close> when both are
  positive and \<open>0\<close> otherwise. So the profit is \<open>0\<close> when the material cost is \<open>0\<close>, and
  multiplying the coefficient by \<open>k > 0\<close> leaves the material cost as it is and multiplies
  the profit by \<open>k\<close>.
\<close>

theorem C8_profit:
  "profit_rsd (quote_of i best) =
     (if total_material_cost_rsd (quote_of i best) > 0 \<and> profit_coefficient_input i > 0
      then total_material_cost_rsd (quote_of i best) * profit_coefficient_input i else 0) \<and>
   (total_material_cost_rsd (quote_of i best) = 0 \<longrightarrow> profit_rsd (quote_of i best) = 0) \<and>
   (0 < k \<longrightarrow>
      total_material_cost_rsd
        (quote_of (i\<lparr>profit_coefficient_input := k * profit_coefficient_input i\<rparr>) best) =
        total_material_cost_rsd (quote_of i best) \<and>
      profit_rsd (quote_of (i\<lparr>profit_coefficient_input := k * profit_coefficient_input i\<rparr>) best) =
        k * profit_rsd (quote_of i best)) \<and>
   (\<forall>q. compute_quote i = Some q \<longrightarrow>
      profit_rsd q =
        (if total_material_cost_rsd q > 0 \<and> profit_coefficient_input i > 0
         then total_material_cost_rsd q * profit_coefficient_input i else 0))"
proof -
  have a: "profit_rsd (quote_of i b) =
     (if total_material_cost_rsd (quote_of i b) > 0 \<and> profit_coefficient_input i > 0
      then total_material_cost_rsd (quote_of i b) * profit_coefficient_input i else 0)" for b
    by (simp add: quote_of_fields(6) calc_profit_def)
  have z: "total_material_cost_rsd (quote_of i best) = 0 \<longrightarrow> profit_rsd (quote_of i best) = 0"
    by (simp add: a)
  have s: "profit_rsd (quote_of (i\<lparr>profit_coefficient_input := k * profit_coefficient_input i\<rparr>) best) =
        k * profit_rsd (quote_of i best)" if "0 < k"
    using that by (simp add: quote_of_fields(6) quote_of_coefficient calc_profit_scale)
  have q: "profit_rsd q =
        (if total_material_cost_rsd q > 0 \<and> profit_coefficient_input i > 0
         then total_material_cost_rsd q * profit_coefficient_input i else 0)"
    if "compute_quote i = Some q" for q
    using compute_quote_Some [OF that] a by blast
  from a [of best] z s q show ?thesis by (simp add: quote_of_coefficient)
qed

theorem C8_profit_witness:
  "total_material_cost_rsd (quote_of example_inputs (solution_of 76 75 3)) = 85797419 / 3200 \<and>
   profit_coefficient_input example_inputs = 2 / 10 \<and>
   profit_rsd (quote_of example_inputs (solution_of 76 75 3)) = 85797419 / 3200 * (2 / 10) \<and>
   (0 :: rat) < 2 \<and>
   profit_rsd (quote_of (example_inputs\<lparr>profit_coefficient_input := 4 / 10\<rparr>) (solution_of 76 75 3)) =
     2 * profit_rsd (quote_of example_inputs (solution_of 76 75 3)) \<and>
   total_material_cost_rsd (quote_of (example_inputs\<lparr>price_per_m2_input := 0,
       machine_labor_price_per_hour := 3000, profit_coefficient_input := 2 / 10\<rparr>)
       (solution_of 76 75 3)) = 0 \<and>
   profit_rsd (quote_of (example_inputs\<lparr>price_per_m2_input := 0,
       machine_labor_price_per_hour := 3000, profit_coefficient_input := 2 / 10\<rparr>)
       (solution_of 76 75 3)) = 0 \<and>
   compute_quote example_inputs = Some (quote_of example_inputs (solution_of 76 75 3))"
proof -
  let ?s = "solution_of 76 75 3"
  let ?z = "example_inputs\<lparr>price_per_m2_input := 0,
       machine_labor_price_per_hour := 3000, profit_coefficient_input := 2 / 10\<rparr>"
  have m: "total_material_cost_rsd (quote_of example_inputs ?s) = 85797419 / 3200"
    using example_area(1) [where p = "3995 / 100" and l = 3000 and k = "2 / 10"]
    unfolding example_inputs_update
    by (simp add: quote_of_fields(4) calc_material_cost_def) (simp add: example_inputs_def)
  have c: "profit_coefficient_input example_inputs = 2 / 10"
    by (simp add: example_inputs_def)
  have d: "example_inputs\<lparr>profit_coefficient_input := 2 * (2 / 10)\<rparr> =
           example_inputs\<lparr>profit_coefficient_input := 4 / 10\<rparr>"
    by simp
  have mz: "total_material_cost_rsd (quote_of ?z ?s) = 0"
    unfolding quote_of_fields(4) example_area example_fields by (simp add: calc_material_cost_def)
  have q: "compute_quote example_inputs = Some (quote_of example_inputs ?s)"
    using compute_quote_example [where p = "3995 / 100" and l = 3000 and k = "2 / 10"]
    unfolding example_inputs_update .
  from C8_profit [of example_inputs ?s 2] C8_profit [of ?z ?s 1] m c mz q
  show ?thesis unfolding c d by simp
qed

text \<open>
  C10. In every quote the material cost and the machine labour cost are not negative: a
  negative material price gives the material cost \<open>0\<close> and a negative labour price gives
  the labour cost \<open>0\<close> (the \<open>>= 0\<close> tests of lines 191 and 195).
\<close>

theorem C10_costs_nonnegative:
  "0 \<le> total_material_cost_rsd (quote_of i best) \<and>
   0 \<le> total_machine_labor_cost_rsd (quote_of i best) \<and>
   (price_per_m2_input i < 0 \<longrightarrow> total_material_cost_rsd (quote_of i best) = 0) \<and>
   (machine_labor_price_per_hour i < 0 \<longrightarrow> total_machine_labor_cost_rsd (quote_of i best) = 0) \<and>
   (\<forall>q. compute_quote i = Some q \<longrightarrow>
      0 \<le> total_material_cost_rsd q \<and> 0 \<le> total_machine_labor_cost_rsd q \<and>
      (price_per_m2_input i < 0 \<longrightarrow> total_material_cost_rsd q = 0) \<and>
      (machine_labor_price_per_hour i < 0 \<longrightarrow> total_machine_labor_cost_rsd q = 0))"
proof -
  have a: "0 \<le> total_material_cost_rsd (quote_of i b) \<and>
      0 \<le> total_machine_labor_cost_rsd (quote_of i b) \<and>
      (price_per_m2_input i < 0 \<longrightarrow> total_material_cost_rsd (quote_of i b) = 0) \<and>
      (machine_labor_price_per_hour i < 0 \<longrightarrow> total_machine_labor_cost_rsd (quote_of i b) = 0)"
    for b
    unfolding quote_of_fields(4,5)
    by (simp add: calc_material_cost_nonneg calc_machine_labor_cost_nonneg)
      (simp add: calc_material_cost_def calc_machine_labor_cost_def)
  have "0 \<le> total_material_cost_rsd q \<and> 0 \<le> total_machine_labor_cost_rsd q \<and>
      (price_per_m2_input i < 0 \<longrightarrow> total_material_cost_rsd q = 0) \<and>
      (machine_labor_price_per_hour i < 0 \<longrightarrow> total_machine_labor_cost_rsd q = 0)"
    if "compute_quote i = Some q" for q
    using compute_quote_Some [OF that] a by blast
  with a [of best] show ?thesis by blast
qed

theorem C10_costs_nonnegative_witness:
  "price_per_m2_input (example_inputs\<lparr>price_per_m2_input := - 1,
       machine_labor_price_per_hour := - 1, profit_coefficient_input := 2 / 10\<rparr>) < 0 \<and>
   machine_labor_price_per_hour (example_inputs\<lparr>price_per_m2_input := - 1,
       machine_labor_price_per_hour := - 1, profit_coefficient_input := 2 / 10\<rparr>) < 0 \<and>
   compute_quote (example_inputs\<lparr>price_per_m2_input := - 1,
       machine_labor_price_per_hour := - 1, profit_coefficient_input := 2 / 10\<rparr>) =
     Some (quote_of (example_inputs\<lparr>price_per_m2_input := - 1,
       machine_labor_price_per_hour := - 1, profit_coefficient_input := 2 / 10\<rparr>)
       (solution_of 76 75 3)) \<and>
   0 < total_final_area_m2 (quote_of (example_inputs\<lparr>price_per_m2_input := - 1,
       machine_labor_price_per_hour := - 1, profit_coefficient_input := 2 / 10\<rparr>)
       (solution_of 76 75 3)) \<and>
   0 < total_time_min (quote_of (example_inputs\<lparr>price_per_m2_input := - 1,
       machine_labor_price_per_hour := - 1, profit_coefficient_input := 2 / 10\<rparr>)
       (solution_of 76 75 3)) \<and>
   total_material_cost_rsd (quote_of (example_inputs\<lparr>price_per_m2_input := - 1,
       machine_labor_price_per_hour := - 1, profit_coefficient_input := 2 / 10\<rparr>)
       (solution_of 76 75 3)) = 0 \<and>
   total_machine_labor_cost_rsd (quote_of (example_inputs\<lparr>price_per_m2_input := - 1,
       machine_labor_price_per_hour := - 1, profit_coefficient_input := 2 / 10\<rparr>)
       (solution_of 76 75 3)) = 0"
proof -
  let ?i = "example_inputs\<lparr>price_per_m2_input := - 1,
       machine_labor_price_per_hour := - 1, profit_coefficient_input := 2 / 10\<rparr>"
  let ?s = "solution_of 76 75 3"
  have p: "price_per_m2_input ?i < 0" "machine_labor_price_per_hour ?i < 0" by simp_all
  have q: "compute_quote ?i = Some (quote_of ?i ?s)" by (rule compute_quote_example)
  have a: "0 < total_final_area_m2 (quote_of ?i ?s)" "0 < total_time_min (quote_of ?i ?s)"
    unfolding example_area by simp_all
  from p q a C10_costs_nonnegative [of ?i ?s] show ?thesis by blast
qed

end
